theory Spec2Isabelle
  imports Main "HOL-Library.Multiset"
begin

section \<open>JavaScript strings and values as the handlers use them\<close>

text \<open>
  Text is modelled as \<^typ>\<open>string\<close>. The handlers only concatenate strings, test a prefix
  (\<open>String.prototype.startsWith\<close>), test for a substring (\<open>String.prototype.includes\<close>)
  and trim white space; all of these are written out below.
\<close>

fun startsWith :: "string \<Rightarrow> string \<Rightarrow> bool" where
  "startsWith s [] = True"
| "startsWith [] (p # ps) = False"
| "startsWith (c # cs) (p # ps) = (c = p \<and> startsWith cs ps)"

fun includes_str :: "string \<Rightarrow> string \<Rightarrow> bool" where
  "includes_str [] sub = startsWith [] sub"
| "includes_str (c # cs) sub = (startsWith (c # cs) sub \<or> includes_str cs sub)"

text \<open>A \<^typ>\<open>char\<close> stands for a code unit below \<open>0x100\<close>. The white space and line terminators
  that \<open>String.prototype.trim\<close> strips are, in this range, TAB, LF, VT, FF, CR, SP and the
  no-break space \<open>U+00A0\<close>.\<close>

definition isWhiteSpace :: "char \<Rightarrow> bool" where
  "isWhiteSpace c =
     (c = CHR 0x09 \<or> c = CHR 0x0A \<or> c = CHR 0x0B \<or> c = CHR 0x0C \<or> c = CHR 0x0D \<or> c = CHR 0x20
      \<or> c = CHR 0xA0)"

definition trim :: "string \<Rightarrow> string" where
  "trim s = rev (dropWhile isWhiteSpace (rev (dropWhile isWhiteSpace s)))"

text \<open>A template literal renders a missing (\<open>undefined\<close>) value as the text \<open>undefined\<close>.\<close>

definition tmpl :: "string option \<Rightarrow> string" where
  "tmpl v = (case v of None \<Rightarrow> ''undefined'' | Some t \<Rightarrow> t)"

text \<open>\<open>str.split(',')[1]\<close>: the text between the first and the second comma, \<open>undefined\<close>
  when \<open>str\<close> has no comma.\<close>

fun afterComma :: "string \<Rightarrow> string option" where
  "afterComma [] = None"
| "afterComma (c # cs) = (if c = CHR '','' then Some cs else afterComma cs)"

definition splitComma1 :: "string \<Rightarrow> string option" where
  "splitComma1 str = map_option (takeWhile (\<lambda>c. c \<noteq> CHR '','')) (afterComma str)"


section \<open>Data model\<close>

text \<open>A \<open>File\<close>: its declared media type, its byte size and what \<open>FileReader.readAsDataURL\<close>
  delivers for it.\<close>

record File =
  ftype :: string
  fsize :: nat
  dataURL :: string

text \<open>The parts of a \<open>generateContent\<close> response that the handlers read.\<close>

record blob =
  data :: "string option"
  mimeType :: "string option"

record part =
  inlineData :: "blob option"
  partText :: "string option"

record gen_content =
  parts :: "part list option"

record candidate =
  content :: "gen_content option"

record response =
  candidates :: "candidate list option"
  respText :: "string option"

text \<open>A caught value \<open>e\<close>: its \<open>message\<close> property (absent on a value that is not an
  \<open>Error\<close>) and \<open>String(e)\<close>.\<close>

record thrown =
  message :: "string option"
  asString :: string

record request =
  model :: string
  image :: blob
  instruction :: string
  responseModalities :: "string list"

text \<open>The external service: \<open>new GoogleGenAI(...)\<close> may throw before any call is made, and
  \<open>ai.models.generateContent\<close> either throws or delivers a response.\<close>

record env =
  clientError :: "thrown option"
  generateContent :: "request \<Rightarrow> thrown + response"

datatype mode = Enhancer | Remover

text \<open>The \<open>useState\<close> hooks of \<open>App\<close>. The hooks that both source files declare form
  \<open>core_state\<close>; \<open>src/index.tsx\<close> adds three more. \<open>fileInputValue\<close> is
  \<open>fileInputRef.current.value\<close>, \<open>None\<close> while no file input is mounted.\<close>

record core_state =
  activeMode :: mode
  originalImage :: "string option"
  imageFile :: "File option"
  enhancedImage :: "string option"
  prompt :: string
  isLoading :: bool
  error :: "string option"
  isFaceEnhancementEnabled :: bool
  isRestoreEnabled :: bool
  upscaleFactor :: string
  bgOriginalImage :: "string option"
  bgImageFile :: "File option"
  bgRemovedImage :: "string option"
  bgIsLoading :: bool
  bgError :: "string option"
  fileInputValue :: "string option"

record app_state = core_state +
  apiKeyReady :: bool
  showLanding :: bool
  isDeblurEnabled :: bool

definition DEFAULT_PROMPT :: string where
  "DEFAULT_PROMPT = ''Improve image quality, lighting, sharpness, color, and details without making it look artificial. Enhance the photo to make it look its best while maintaining a natural appearance.''"

definition MAX_FILE_SIZE_MB :: nat where
  "MAX_FILE_SIZE_MB = 10"

definition MAX_FILE_SIZE_BYTES :: nat where
  "MAX_FILE_SIZE_BYTES = MAX_FILE_SIZE_MB * 1024 * 1024"

text \<open>The state \<open>App\<close> starts in, in \<open>src/index.tsx\<close> and in the second source file.\<close>

definition initialState :: app_state where
  "initialState =
     \<lparr> activeMode = Enhancer, originalImage = None, imageFile = None, enhancedImage = None,
       prompt = DEFAULT_PROMPT, isLoading = False, error = None,
       isFaceEnhancementEnabled = False, isRestoreEnabled = False, upscaleFactor = ''none'',
       bgOriginalImage = None, bgImageFile = None, bgRemovedImage = None, bgIsLoading = False,
       bgError = None, fileInputValue = None,
       apiKeyReady = False, showLanding = True, isDeblurEnabled = False \<rparr>"

definition initialState_part000 :: core_state where
  "initialState_part000 =
     \<lparr> activeMode = Enhancer, originalImage = None, imageFile = None, enhancedImage = None,
       prompt = DEFAULT_PROMPT, isLoading = False, error = None,
       isFaceEnhancementEnabled = False, isRestoreEnabled = False, upscaleFactor = ''none'',
       bgOriginalImage = None, bgImageFile = None, bgRemovedImage = None, bgIsLoading = False,
       bgError = None, fileInputValue = None \<rparr>"


section \<open>Prompt assembly\<close>

definition upscaleFragment :: "string \<Rightarrow> string" where
  "upscaleFragment factor =
     '' Increase the resolution of the image by '' @ factor @ '' while keeping details sharp and natural.''"

definition deblurFragment :: string where
  "deblurFragment = '' This is a high-priority instruction: Remove all types of blur from the image, including motion blur, focus blur, and camera shake. The final image must be exceptionally sharp and clear, with all details brought into crisp focus.''"

definition restoreFragment :: string where
  "restoreFragment = '' Perform an expert-level, full restoration of this photograph. This is a high-priority instruction. Your task is to meticulously repair all signs of damage and degradation.\<newline>1. **Fix Physical Damage:** Completely remove all scratches, tears, creases, stains, and water damage.\<newline>2. **Correct Blur & Sharpness:** This is critical. Analyze the image for any blurriness (motion blur, out-of-focus areas) and apply advanced sharpening techniques to bring all details into sharp, clear focus.\<newline>3. **Remove Noise & Artifacts:** Eliminate all digital noise, film grain, and compression artifacts (like JPEG blocking).\<newline>4. **Restore Colors:** Correct any color fading, yellowing, or discoloration. Restore the original, vibrant, and accurate colors.\<newline>5. **Final Output:** The result must be a clean, sharp, fully restored image that looks like it was captured with a modern, high-resolution digital camera. Do not leave any original flaws.''"

definition faceFragment :: string where
  "faceFragment = '' Generate an ultra-realistic face. Focus on hyper-detailed skin texture, including pores and fine lines. Create lifelike eyes with natural depth and reflections. Render individual hair and eyebrow strands with sharp precision. The result should be indistinguishable from a high-resolution photograph.''"

text \<open>\<open>finalPrompt\<close> as \<open>handleEnhanceClick\<close> of \<open>src/index.tsx\<close> builds it: the variable
  starts as the prompt and each \<open>if\<close> appends to it in turn.\<close>

definition finalPrompt :: "app_state \<Rightarrow> string" where
  "finalPrompt s =
     (let p0 = prompt s;
          p1 = (if upscaleFactor s \<noteq> ''none'' then p0 @ upscaleFragment (upscaleFactor s) else p0);
          p2 = (if isDeblurEnabled s then p1 @ deblurFragment else p1);
          p3 = (if isRestoreEnabled s then p2 @ restoreFragment else p2);
          p4 = (if isFaceEnhancementEnabled s then p3 @ faceFragment else p3)
      in p4)"

text \<open>The second source file has no blur-removal toggle.\<close>

definition finalPrompt_part000 :: "core_state \<Rightarrow> string" where
  "finalPrompt_part000 s =
     (let p0 = prompt s;
          p1 = (if upscaleFactor s \<noteq> ''none'' then p0 @ upscaleFragment (upscaleFactor s) else p0);
          p2 = (if isRestoreEnabled s then p1 @ restoreFragment else p1);
          p3 = (if isFaceEnhancementEnabled s then p2 @ faceFragment else p2)
      in p3)"

text \<open>The controls of \<open>EditorComponent\<close>: each calls one state setter with an absolute value.\<close>

datatype control =
    SetUpscaleFactor string
  | SetIsDeblurEnabled bool
  | SetIsRestoreEnabled bool
  | SetIsFaceEnhancementEnabled bool
  | SetPrompt string

fun setControl :: "control \<Rightarrow> app_state \<Rightarrow> app_state" where
  "setControl (SetUpscaleFactor factor) s = s\<lparr>upscaleFactor := factor\<rparr>"
| "setControl (SetIsDeblurEnabled b) s = s\<lparr>isDeblurEnabled := b\<rparr>"
| "setControl (SetIsRestoreEnabled b) s = s\<lparr>isRestoreEnabled := b\<rparr>"
| "setControl (SetIsFaceEnhancementEnabled b) s = s\<lparr>isFaceEnhancementEnabled := b\<rparr>"
| "setControl (SetPrompt t) s = s\<lparr>prompt := t\<rparr>"


section \<open>Image ingestion\<close>

definition invalidTypeText :: string where
  "invalidTypeText = ''Please upload a valid image file (JPG, PNG, WEBP).''"

text \<open>\<open>`File size exceeds the ${MAX_FILE_SIZE_MB}MB limit.`\<close> with \<open>MAX_FILE_SIZE_MB = 10\<close>.\<close>

definition tooLargeText :: string where
  "tooLargeText = ''File size exceeds the '' @ ''10'' @ ''MB limit.''"

text \<open>The callback that \<open>handleImageUpload\<close> registers on its \<open>FileReader\<close>, run when the
  read has delivered \<open>dataURL f\<close>.\<close>

definition onloadend :: "File \<Rightarrow> app_state \<Rightarrow> app_state" where
  "onloadend f s =
     s\<lparr>originalImage := Some (dataURL f), enhancedImage := None, error := None,
       prompt := DEFAULT_PROMPT, isFaceEnhancementEnabled := False, isRestoreEnabled := False,
       isDeblurEnabled := False, upscaleFactor := ''none''\<rparr>"

definition handleImageUpload :: "File option \<Rightarrow> app_state \<Rightarrow> app_state" where
  "handleImageUpload file s =
     (case file of
        None \<Rightarrow> s
      | Some f \<Rightarrow>
          if \<not> startsWith (ftype f) ''image/'' then s\<lparr>error := Some invalidTypeText\<rparr>
          else if fsize f > MAX_FILE_SIZE_BYTES then s\<lparr>error := Some tooLargeText\<rparr>
          else onloadend f (s\<lparr>imageFile := Some f\<rparr>))"

definition onloadend_part000 :: "File \<Rightarrow> core_state \<Rightarrow> core_state" where
  "onloadend_part000 f s =
     s\<lparr>originalImage := Some (dataURL f), enhancedImage := None, error := None,
       prompt := DEFAULT_PROMPT, isFaceEnhancementEnabled := False, isRestoreEnabled := False,
       upscaleFactor := ''none''\<rparr>"

definition handleImageUpload_part000 :: "File option \<Rightarrow> core_state \<Rightarrow> core_state" where
  "handleImageUpload_part000 file s =
     (case file of
        None \<Rightarrow> s
      | Some f \<Rightarrow>
          if \<not> startsWith (ftype f) ''image/'' then s\<lparr>error := Some invalidTypeText\<rparr>
          else if fsize f > MAX_FILE_SIZE_BYTES then s\<lparr>error := Some tooLargeText\<rparr>
          else onloadend_part000 f (s\<lparr>imageFile := Some f\<rparr>))"

text \<open>\<open>handleBgImageUpload\<close> has the same text in both source files.\<close>

definition handleBgImageUpload :: "File option \<Rightarrow> 'a core_state_scheme \<Rightarrow> 'a core_state_scheme" where
  "handleBgImageUpload file s =
     (case file of
        None \<Rightarrow> s
      | Some f \<Rightarrow>
          if \<not> startsWith (ftype f) ''image/'' then s\<lparr>bgError := Some invalidTypeText\<rparr>
          else if fsize f > MAX_FILE_SIZE_BYTES then s\<lparr>bgError := Some tooLargeText\<rparr>
          else s\<lparr>bgImageFile := Some f, bgOriginalImage := Some (dataURL f),
                 bgRemovedImage := None, bgError := None\<rparr>)"


section \<open>The request to the model and the reading of its response\<close>

definition fileToGenerativePart :: "File \<Rightarrow> blob" where
  "fileToGenerativePart f = \<lparr> data = splitComma1 (dataURL f), mimeType = Some (ftype f) \<rparr>"

definition generateContentRequest :: "File \<Rightarrow> string \<Rightarrow> request" where
  "generateContentRequest f txt =
     \<lparr> model = ''gemini-2.5-flash-image'', image = fileToGenerativePart f, instruction = txt,
       responseModalities = [''IMAGE'', ''TEXT''] \<rparr>"

text \<open>The first statements of the \<open>try\<close> block: what they deliver, and the calls made.\<close>

definition callModel :: "env \<Rightarrow> request \<Rightarrow> (thrown + response) \<times> request list" where
  "callModel e req =
     (case clientError e of
        Some t \<Rightarrow> (Inl t, [])
      | None \<Rightarrow> (generateContent e req, [req]))"

text \<open>\<open>response.candidates?.[0]?.content?.parts\<close>\<close>

definition getParts :: "response \<Rightarrow> part list option" where
  "getParts r =
     (case candidates r of
        None \<Rightarrow> None
      | Some cs \<Rightarrow>
          (case cs of
             [] \<Rightarrow> None
           | c # _ \<Rightarrow> (case content c of None \<Rightarrow> None | Some ct \<Rightarrow> parts ct)))"

text \<open>The \<open>for\<close> loops over the parts, each leaving at its \<open>break\<close>: the value handed to
  the setter, \<open>None\<close> when \<open>foundImage\<close> stays \<open>false\<close>.\<close>

fun enhancedFrom :: "part list \<Rightarrow> string option" where
  "enhancedFrom [] = None"
| "enhancedFrom (p # ps) =
     (case inlineData p of
        Some b \<Rightarrow> Some (''data:'' @ tmpl (mimeType b) @ '';base64,'' @ tmpl (data b))
      | None \<Rightarrow> enhancedFrom ps)"

fun removedFrom :: "part list \<Rightarrow> string option" where
  "removedFrom [] = None"
| "removedFrom (p # ps) =
     (case inlineData p of
        Some b \<Rightarrow> Some (''data:'' @ ''image/png'' @ '';base64,'' @ tmpl (data b))
      | None \<Rightarrow> removedFrom ps)"

fun removedFrom_part000 :: "part list \<Rightarrow> string option" where
  "removedFrom_part000 [] = None"
| "removedFrom_part000 (p # ps) =
     (case inlineData p of
        Some b \<Rightarrow> Some (''data:'' @ tmpl (mimeType b) @ '';base64,'' @ tmpl (data b))
      | None \<Rightarrow> removedFrom_part000 ps)"

text \<open>\<open>response.text?.trim() || "No text response."\<close>\<close>

definition textResponse :: "response \<Rightarrow> string" where
  "textResponse r =
     (case respText r of
        None \<Rightarrow> ''No text response.''
      | Some t \<Rightarrow> if trim t = [] then ''No text response.'' else trim t)"

definition noImageMessage :: "response \<Rightarrow> string" where
  "noImageMessage r =
     ''The AI did not return an image. Response: '' @ [CHR 0x22] @ textResponse r @ [CHR 0x22]"

text \<open>\<open>new Error(msg)\<close>\<close>

definition newError :: "string \<Rightarrow> thrown" where
  "newError msg = \<lparr> message = Some msg, asString = (if msg = [] then ''Error'' else ''Error: '' @ msg) \<rparr>"


section \<open>The \<open>catch\<close> blocks\<close>

text \<open>\<open>e.message || String(e)\<close>\<close>

definition errorMessage :: "thrown \<Rightarrow> string" where
  "errorMessage t =
     (case message t of
        None \<Rightarrow> asString t
      | Some m \<Rightarrow> if m = [] then asString t else m)"

definition isCredentialError :: "string \<Rightarrow> bool" where
  "isCredentialError msg =
     (includes_str msg ''API Key must be set'' \<or> includes_str msg ''Requested entity was not found'')"

definition credentialText :: string where
  "credentialText = ''Your API Key is not valid or has been revoked. Please select a new key to continue.''"

definition catchEnhance :: "thrown \<Rightarrow> app_state \<Rightarrow> app_state" where
  "catchEnhance t s =
     (if isCredentialError (errorMessage t)
      then s\<lparr>error := Some credentialText, apiKeyReady := False\<rparr>
      else s\<lparr>error := Some (''An error occurred during enhancement: '' @ errorMessage t)\<rparr>)"

definition catchRemove :: "thrown \<Rightarrow> app_state \<Rightarrow> app_state" where
  "catchRemove t s =
     (if isCredentialError (errorMessage t)
      then s\<lparr>bgError := Some credentialText, apiKeyReady := False\<rparr>
      else s\<lparr>bgError := Some (''An error occurred: '' @ errorMessage t)\<rparr>)"

definition catchEnhance_part000 :: "thrown \<Rightarrow> core_state \<Rightarrow> core_state" where
  "catchEnhance_part000 t s =
     s\<lparr>error := Some (''An error occurred during enhancement: '' @ tmpl (message t))\<rparr>"

definition catchRemove_part000 :: "thrown \<Rightarrow> core_state \<Rightarrow> core_state" where
  "catchRemove_part000 t s = s\<lparr>bgError := Some (''An error occurred: '' @ tmpl (message t))\<rparr>"


section \<open>The request handlers\<close>

text \<open>Each handler yields the state once it has run to its end, with the calls it made to
  the model.\<close>

definition handleEnhanceClick :: "env \<Rightarrow> app_state \<Rightarrow> app_state \<times> request list" where
  "handleEnhanceClick e s =
     (case imageFile s of
        None \<Rightarrow> (s, [])
      | Some f \<Rightarrow>
          if prompt s = [] then (s, [])
          else
            let s1 = s\<lparr>isLoading := True, error := None, enhancedImage := None\<rparr>;
                (outcome, calls) = callModel e (generateContentRequest f (finalPrompt s));
                s2 = (case outcome of
                        Inl t \<Rightarrow> catchEnhance t s1
                      | Inr r \<Rightarrow>
                          (case Option.bind (getParts r) enhancedFrom of
                             Some url \<Rightarrow> s1\<lparr>enhancedImage := Some url\<rparr>
                           | None \<Rightarrow> catchEnhance (newError (noImageMessage r)) s1))
            in (s2\<lparr>isLoading := False\<rparr>, calls))"

definition handleEnhanceClick_part000 :: "env \<Rightarrow> core_state \<Rightarrow> core_state \<times> request list" where
  "handleEnhanceClick_part000 e s =
     (case imageFile s of
        None \<Rightarrow> (s, [])
      | Some f \<Rightarrow>
          if prompt s = [] then (s, [])
          else
            let s1 = s\<lparr>isLoading := True, error := None, enhancedImage := None\<rparr>;
                (outcome, calls) = callModel e (generateContentRequest f (finalPrompt_part000 s));
                s2 = (case outcome of
                        Inl t \<Rightarrow> catchEnhance_part000 t s1
                      | Inr r \<Rightarrow>
                          (case Option.bind (getParts r) enhancedFrom of
                             Some url \<Rightarrow> s1\<lparr>enhancedImage := Some url\<rparr>
                           | None \<Rightarrow> catchEnhance_part000 (newError (noImageMessage r)) s1))
            in (s2\<lparr>isLoading := False\<rparr>, calls))"

definition bgRemovePrompt :: string where
  "bgRemovePrompt = ''CRITICAL TASK: Your only job is to remove the background from this image. The main subject must be perfectly isolated with clean edges. The output format MUST be a PNG with a fully transparent (alpha) background. Do not output any other format or any background color.''"

definition bgRemovePrompt_part000 :: string where
  "bgRemovePrompt_part000 = ''Your task is to perfectly and accurately remove the background of the provided image. Isolate the main subject with clean, precise edges. The only output should be an image. The output image format MUST be PNG, and its background MUST be transparent. Do not return any other format or a solid background.''"

definition handleRemoveBackgroundClick :: "env \<Rightarrow> app_state \<Rightarrow> app_state \<times> request list" where
  "handleRemoveBackgroundClick e s =
     (case bgImageFile s of
        None \<Rightarrow> (s, [])
      | Some f \<Rightarrow>
          let s1 = s\<lparr>bgIsLoading := True, bgError := None, bgRemovedImage := None\<rparr>;
              (outcome, calls) = callModel e (generateContentRequest f bgRemovePrompt);
              s2 = (case outcome of
                      Inl t \<Rightarrow> catchRemove t s1
                    | Inr r \<Rightarrow>
                        (case Option.bind (getParts r) removedFrom of
                           Some url \<Rightarrow> s1\<lparr>bgRemovedImage := Some url\<rparr>
                         | None \<Rightarrow> catchRemove (newError (noImageMessage r)) s1))
          in (s2\<lparr>bgIsLoading := False\<rparr>, calls))"

definition handleRemoveBackgroundClick_part000 :: "env \<Rightarrow> core_state \<Rightarrow> core_state \<times> request list" where
  "handleRemoveBackgroundClick_part000 e s =
     (case bgImageFile s of
        None \<Rightarrow> (s, [])
      | Some f \<Rightarrow>
          let s1 = s\<lparr>bgIsLoading := True, bgError := None, bgRemovedImage := None\<rparr>;
              (outcome, calls) = callModel e (generateContentRequest f bgRemovePrompt_part000);
              s2 = (case outcome of
                      Inl t \<Rightarrow> catchRemove_part000 t s1
                    | Inr r \<Rightarrow>
                        (case Option.bind (getParts r) removedFrom_part000 of
                           Some url \<Rightarrow> s1\<lparr>bgRemovedImage := Some url\<rparr>
                         | None \<Rightarrow> catchRemove_part000 (newError (noImageMessage r)) s1))
          in (s2\<lparr>bgIsLoading := False\<rparr>, calls))"


section \<open>Reset\<close>

text \<open>\<open>if (fileInputRef.current) fileInputRef.current.value = ""\<close>\<close>

definition clearFileInput :: "string option \<Rightarrow> string option" where
  "clearFileInput v = (case v of None \<Rightarrow> None | Some _ \<Rightarrow> Some [])"

definition handleReset :: "app_state \<Rightarrow> app_state" where
  "handleReset s =
     s\<lparr>originalImage := None, imageFile := None, enhancedImage := None, error := None,
       isLoading := False, prompt := DEFAULT_PROMPT, isFaceEnhancementEnabled := False,
       isRestoreEnabled := False, isDeblurEnabled := False, upscaleFactor := ''none'',
       fileInputValue := clearFileInput (fileInputValue s)\<rparr>"

definition handleReset_part000 :: "core_state \<Rightarrow> core_state" where
  "handleReset_part000 s =
     s\<lparr>originalImage := None, imageFile := None, enhancedImage := None, error := None,
       isLoading := False, prompt := DEFAULT_PROMPT, isFaceEnhancementEnabled := False,
       isRestoreEnabled := False, upscaleFactor := ''none'',
       fileInputValue := clearFileInput (fileInputValue s)\<rparr>"

text \<open>\<open>handleBgReset\<close> has the same text in both source files.\<close>

definition handleBgReset :: "'a core_state_scheme \<Rightarrow> 'a core_state_scheme" where
  "handleBgReset s =
     s\<lparr>bgOriginalImage := None, bgImageFile := None, bgRemovedImage := None, bgError := None,
       bgIsLoading := False, fileInputValue := clearFileInput (fileInputValue s)\<rparr>"


section \<open>Concrete inputs\<close>

text \<open>Files, responses, services and states on which the theorems below are evaluated.\<close>

definition pngFile :: File where
  "pngFile = \<lparr> ftype = ''image/png'', fsize = 2048, dataURL = ''data:image/png;base64,iVBORw0KGgo='' \<rparr>"

definition gifFile :: File where
  "gifFile = \<lparr> ftype = ''image/gif'', fsize = 1, dataURL = ''data:image/gif;base64,R0lGODlh'' \<rparr>"

definition pdfFile :: File where
  "pdfFile = \<lparr> ftype = ''application/pdf'', fsize = 10485761, dataURL = ''data:application/pdf;base64,JVBERi0='' \<rparr>"

definition respondWith :: "response \<Rightarrow> env" where
  "respondWith r = \<lparr> clientError = None, generateContent = (\<lambda>req. Inr r) \<rparr>"

definition failWith :: "thrown \<Rightarrow> env" where
  "failWith t = \<lparr> clientError = None, generateContent = (\<lambda>req. Inl t) \<rparr>"

definition responseOf :: "part list \<Rightarrow> string option \<Rightarrow> response" where
  "responseOf ps txt =
     \<lparr> candidates = Some [\<lparr> content = Some \<lparr> parts = Some ps \<rparr> \<rparr>], respText = txt \<rparr>"

definition textPart :: "string \<Rightarrow> part" where
  "textPart t = \<lparr> inlineData = None, partText = Some t \<rparr>"

definition imagePart :: "string \<Rightarrow> string \<Rightarrow> part" where
  "imagePart mt d = \<lparr> inlineData = Some \<lparr> data = Some d, mimeType = Some mt \<rparr>, partText = None \<rparr>"

text \<open>A state of \<open>src/index.tsx\<close> after an upload, some edits and an earlier request, and
  the like for the second source file.\<close>

definition loadedState :: app_state where
  "loadedState =
     initialState\<lparr>apiKeyReady := True, showLanding := False, imageFile := Some pngFile,
       originalImage := Some (dataURL pngFile), enhancedImage := Some ''data:image/png;base64,b2xk'',
       prompt := ''Improve lighting'', error := Some ''earlier error'', upscaleFactor := ''4x'',
       isRestoreEnabled := True, isDeblurEnabled := True, isFaceEnhancementEnabled := True,
       bgImageFile := Some pngFile, bgOriginalImage := Some (dataURL pngFile),
       bgRemovedImage := Some ''data:image/png;base64,b2xk'', bgError := Some ''earlier error'',
       fileInputValue := Some ''photo.png''\<rparr>"

definition loadedState_part000 :: core_state where
  "loadedState_part000 =
     initialState_part000\<lparr>imageFile := Some pngFile,
       originalImage := Some (dataURL pngFile), enhancedImage := Some ''data:image/png;base64,b2xk'',
       prompt := ''Improve lighting'', error := Some ''earlier error'', upscaleFactor := ''4x'',
       isRestoreEnabled := True, isFaceEnhancementEnabled := True,
       bgImageFile := Some pngFile, bgOriginalImage := Some (dataURL pngFile),
       bgRemovedImage := Some ''data:image/png;base64,b2xk'', bgError := Some ''earlier error'',
       fileInputValue := Some ''photo.png''\<rparr>"

text \<open>Which hook a control sets.\<close>

fun controlKind :: "control \<Rightarrow> nat" where
  "controlKind (SetUpscaleFactor _) = 0"
| "controlKind (SetIsDeblurEnabled _) = 1"
| "controlKind (SetIsRestoreEnabled _) = 2"
| "controlKind (SetIsFaceEnhancementEnabled _) = 3"
| "controlKind (SetPrompt _) = 4"


section \<open>The string functions meet their JavaScript meaning\<close>

text \<open>\<open>s.startsWith(p)\<close> holds when \<open>s\<close> begins with \<open>p\<close>, \<open>s.includes(p)\<close> when \<open>p\<close>
  occurs somewhere in \<open>s\<close>.\<close>

lemma startsWith_iff: "startsWith s p = (\<exists>v. s = p @ v)"
  by (induction s p rule: startsWith.induct) auto

lemma includes_str_iff: "includes_str s p = (\<exists>u v. s = u @ p @ v)"
proof (induction s)
  case Nil
  then show ?case by (simp add: startsWith_iff)
next
  case (Cons c cs)
  show ?case
  proof
    assume "includes_str (c # cs) p"
    then consider "startsWith (c # cs) p" | "includes_str cs p" by auto
    then show "\<exists>u v. c # cs = u @ p @ v"
    proof cases
      case 1
      then obtain v where "c # cs = [] @ p @ v" by (auto simp: startsWith_iff)
      then show ?thesis by blast
    next
      case 2
      with Cons.IH obtain u v where "cs = u @ p @ v" by auto
      then have "c # cs = (c # u) @ p @ v" by simp
      then show ?thesis by blast
    qed
  next
    assume "\<exists>u v. c # cs = u @ p @ v"
    then obtain u v where *: "c # cs = u @ p @ v" by blast
    show "includes_str (c # cs) p"
    proof (cases u)
      case Nil
      with * have "startsWith (c # cs) p" by (auto simp: startsWith_iff)
      then show ?thesis by simp
    next
      case (Cons d u')
      with * have "cs = u' @ p @ v" by simp
      with Cons.IH have "includes_str cs p" by blast
      then show ?thesis by simp
    qed
  qed
qed


section \<open>Properties of prompt assembly\<close>

lemma finalPrompt_closed_form:
  "finalPrompt s =
     prompt s
     @ (if upscaleFactor s \<noteq> ''none'' then upscaleFragment (upscaleFactor s) else [])
     @ (if isDeblurEnabled s then deblurFragment else [])
     @ (if isRestoreEnabled s then restoreFragment else [])
     @ (if isFaceEnhancementEnabled s then faceFragment else [])"
  by (simp add: finalPrompt_def Let_def)

lemma finalPrompt_part000_closed_form:
  "finalPrompt_part000 s =
     prompt s
     @ (if upscaleFactor s \<noteq> ''none'' then upscaleFragment (upscaleFactor s) else [])
     @ (if isRestoreEnabled s then restoreFragment else [])
     @ (if isFaceEnhancementEnabled s then faceFragment else [])"
  by (simp add: finalPrompt_part000_def Let_def)

lemma setControl_commute:
  "controlKind a \<noteq> controlKind b \<Longrightarrow> setControl a (setControl b s) = setControl b (setControl a s)"
  by (cases a; cases b) simp_all

text \<open>Controls that set different hooks can be operated in any order.\<close>

lemma setControl_fold_reorder:
  assumes "distinct (map controlKind xs)" and "mset xs = mset ys"
  shows "fold setControl xs s = fold setControl ys s"
proof -
  have "setControl x \<circ> setControl y = setControl y \<circ> setControl x"
    if "x \<in> set xs" and "y \<in> set xs" for x y
  proof (cases "x = y")
    case True
    then show ?thesis by simp
  next
    case False
    with that assms(1) have "controlKind x \<noteq> controlKind y"
      by (meson distinct_map inj_onD)
    then show ?thesis
      by (auto simp: fun_eq_iff setControl_commute)
  qed
  then have "fold setControl xs = fold setControl ys"
    using assms(2) by (rule fold_multiset_equiv)
  then show ?thesis by simp
qed

text \<open>
  C1. The instruction sent by \<open>handleEnhanceClick\<close> of \<open>src/index.tsx\<close> is the prompt followed
  by the resolution fragment (present exactly when the factor is not \<open>none\<close>), the blur-removal
  fragment, the restoration fragment and the face fragment (each present exactly when its toggle is
  on), in this order. It depends on the values of the hooks only: operating the same controls, each
  at most once, in another order gives the same instruction.
\<close>

theorem prompt_assembly_fixed_order:
  "finalPrompt s =
     prompt s
     @ (if upscaleFactor s \<noteq> ''none'' then upscaleFragment (upscaleFactor s) else [])
     @ (if isDeblurEnabled s then deblurFragment else [])
     @ (if isRestoreEnabled s then restoreFragment else [])
     @ (if isFaceEnhancementEnabled s then faceFragment else [])
   \<and> (distinct (map controlKind xs) \<and> mset xs = mset ys
        \<longrightarrow> finalPrompt (fold setControl xs s) = finalPrompt (fold setControl ys s))"
  using finalPrompt_closed_form setControl_fold_reorder by metis

theorem prompt_assembly_fixed_order_witness:
  "distinct (map controlKind [SetIsRestoreEnabled True, SetPrompt ''Improve lighting'', SetUpscaleFactor ''4x''])
   \<and> mset [SetIsRestoreEnabled True, SetPrompt ''Improve lighting'', SetUpscaleFactor ''4x'']
       = mset [SetUpscaleFactor ''4x'', SetIsRestoreEnabled True, SetPrompt ''Improve lighting'']
   \<and> finalPrompt (fold setControl [SetIsRestoreEnabled True, SetPrompt ''Improve lighting'', SetUpscaleFactor ''4x''] initialState)
       = finalPrompt (fold setControl [SetUpscaleFactor ''4x'', SetIsRestoreEnabled True, SetPrompt ''Improve lighting''] initialState)
   \<and> finalPrompt (fold setControl [SetUpscaleFactor ''4x'', SetIsRestoreEnabled True, SetPrompt ''Improve lighting''] initialState)
       = ''Improve lighting'' @ upscaleFragment ''4x'' @ restoreFragment"
  using prompt_assembly_fixed_order [of
      "fold setControl [SetUpscaleFactor ''4x'', SetIsRestoreEnabled True, SetPrompt ''Improve lighting''] initialState"]
    prompt_assembly_fixed_order [of initialState
      "[SetIsRestoreEnabled True, SetPrompt ''Improve lighting'', SetUpscaleFactor ''4x'']"
      "[SetUpscaleFactor ''4x'', SetIsRestoreEnabled True, SetPrompt ''Improve lighting'']"]
  by (simp add: initialState_def)


section \<open>Properties of reset\<close>

text \<open>
  C8. \<open>handleReset\<close>, in any state, leaves the enhance pipeline as \<open>App\<close> starts it: no source
  image, no result, no error, not loading, the default prompt, every toggle off and the factor
  \<open>none\<close>. Applying it twice gives the state that applying it once gives, and in the initial state
  it changes nothing. The same holds in the second source file and for \<open>handleBgReset\<close>.
\<close>

theorem reset_yields_initial_state:
  "originalImage (handleReset s) = None \<and> imageFile (handleReset s) = None
   \<and> enhancedImage (handleReset s) = None \<and> error (handleReset s) = None
   \<and> isLoading (handleReset s) = False \<and> prompt (handleReset s) = DEFAULT_PROMPT
   \<and> isFaceEnhancementEnabled (handleReset s) = False \<and> isRestoreEnabled (handleReset s) = False
   \<and> isDeblurEnabled (handleReset s) = False \<and> upscaleFactor (handleReset s) = ''none''
   \<and> handleReset (handleReset s) = handleReset s
   \<and> handleReset initialState = initialState
   \<and> originalImage (handleReset_part000 s0) = None \<and> imageFile (handleReset_part000 s0) = None
   \<and> enhancedImage (handleReset_part000 s0) = None \<and> error (handleReset_part000 s0) = None
   \<and> isLoading (handleReset_part000 s0) = False \<and> prompt (handleReset_part000 s0) = DEFAULT_PROMPT
   \<and> isFaceEnhancementEnabled (handleReset_part000 s0) = False
   \<and> isRestoreEnabled (handleReset_part000 s0) = False \<and> upscaleFactor (handleReset_part000 s0) = ''none''
   \<and> handleReset_part000 (handleReset_part000 s0) = handleReset_part000 s0
   \<and> handleReset_part000 initialState_part000 = initialState_part000
   \<and> bgOriginalImage (handleBgReset s) = None \<and> bgImageFile (handleBgReset s) = None
   \<and> bgRemovedImage (handleBgReset s) = None \<and> bgError (handleBgReset s) = None
   \<and> bgIsLoading (handleBgReset s) = False
   \<and> handleBgReset (handleBgReset s) = handleBgReset s
   \<and> handleBgReset initialState = initialState
   \<and> handleBgReset (handleBgReset s0) = handleBgReset s0
   \<and> handleBgReset initialState_part000 = initialState_part000"
  by (simp add: handleReset_def handleReset_part000_def handleBgReset_def clearFileInput_def
        initialState_def initialState_part000_def split: option.split)


section \<open>Requests without input\<close>

text \<open>
  C10. With no image file in the state, or with an empty prompt in the enhance pipeline, a request
  handler returns at once: the state is the one it was called in and no call to the model is made.
\<close>

theorem request_without_input_is_noop:
  "(imageFile s = None \<or> prompt s = [] \<longrightarrow> handleEnhanceClick e s = (s, []))
   \<and> (bgImageFile s = None \<longrightarrow> handleRemoveBackgroundClick e s = (s, []))
   \<and> (imageFile s0 = None \<or> prompt s0 = [] \<longrightarrow> handleEnhanceClick_part000 e s0 = (s0, []))
   \<and> (bgImageFile s0 = None \<longrightarrow> handleRemoveBackgroundClick_part000 e s0 = (s0, []))"
  by (simp add: handleEnhanceClick_def handleRemoveBackgroundClick_def
        handleEnhanceClick_part000_def handleRemoveBackgroundClick_part000_def split: option.split)

theorem request_without_input_is_noop_witness:
  "imageFile initialState = None \<and> bgImageFile initialState = None
   \<and> imageFile initialState_part000 = None \<and> bgImageFile initialState_part000 = None
   \<and> handleEnhanceClick (respondWith (responseOf [imagePart ''image/png'' ''QUJD''] None)) initialState
       = (initialState, [])
   \<and> handleRemoveBackgroundClick (respondWith (responseOf [imagePart ''image/png'' ''QUJD''] None)) initialState
       = (initialState, [])
   \<and> handleEnhanceClick_part000 (respondWith (responseOf [imagePart ''image/png'' ''QUJD''] None)) initialState_part000
       = (initialState_part000, [])
   \<and> handleRemoveBackgroundClick_part000 (respondWith (responseOf [imagePart ''image/png'' ''QUJD''] None)) initialState_part000
       = (initialState_part000, [])
   \<and> imageFile (loadedState\<lparr>prompt := []\<rparr>) = Some pngFile \<and> prompt (loadedState\<lparr>prompt := []\<rparr>) = []
   \<and> handleEnhanceClick (respondWith (responseOf [imagePart ''image/png'' ''QUJD''] None)) (loadedState\<lparr>prompt := []\<rparr>)
       = (loadedState\<lparr>prompt := []\<rparr>, [])"
  using request_without_input_is_noop [of initialState
      "respondWith (responseOf [imagePart ''image/png'' ''QUJD''] None)" initialState_part000]
    request_without_input_is_noop [of "loadedState\<lparr>prompt := []\<rparr>"
      "respondWith (responseOf [imagePart ''image/png'' ''QUJD''] None)" initialState_part000]
  by (simp add: initialState_def initialState_part000_def loadedState_def)

section \<open>Properties of image ingestion\<close>

lemma error_texts_differ: "invalidTypeText \<noteq> tooLargeText"
  by (simp add: invalidTypeText_def tooLargeText_def)

text \<open>
  C7. A file whose declared media type begins with \<open>image/\<close> and whose size is at most 10 MiB
  passes both checks of \<open>handleImageUpload\<close>. The upload then stores the file and its data URL
  as the source image, clears the result and the error, puts the default prompt back and turns
  every toggle off (the factor back to \<open>none\<close>); in the second source file likewise, and
  \<open>handleBgImageUpload\<close> stores the source image and clears result and error.
\<close>

theorem ingestion_resets_derived_state:
  assumes "startsWith (ftype f) ''image/''" and "fsize f \<le> 10 * 1024 * 1024"
  shows "imageFile (handleImageUpload (Some f) s) = Some f
     \<and> originalImage (handleImageUpload (Some f) s) = Some (dataURL f)
     \<and> enhancedImage (handleImageUpload (Some f) s) = None
     \<and> error (handleImageUpload (Some f) s) = None
     \<and> prompt (handleImageUpload (Some f) s) = DEFAULT_PROMPT
     \<and> isFaceEnhancementEnabled (handleImageUpload (Some f) s) = False
     \<and> isRestoreEnabled (handleImageUpload (Some f) s) = False
     \<and> isDeblurEnabled (handleImageUpload (Some f) s) = False
     \<and> upscaleFactor (handleImageUpload (Some f) s) = ''none''
     \<and> imageFile (handleImageUpload_part000 (Some f) s0) = Some f
     \<and> originalImage (handleImageUpload_part000 (Some f) s0) = Some (dataURL f)
     \<and> enhancedImage (handleImageUpload_part000 (Some f) s0) = None
     \<and> error (handleImageUpload_part000 (Some f) s0) = None
     \<and> prompt (handleImageUpload_part000 (Some f) s0) = DEFAULT_PROMPT
     \<and> isFaceEnhancementEnabled (handleImageUpload_part000 (Some f) s0) = False
     \<and> isRestoreEnabled (handleImageUpload_part000 (Some f) s0) = False
     \<and> upscaleFactor (handleImageUpload_part000 (Some f) s0) = ''none''
     \<and> bgImageFile (handleBgImageUpload (Some f) s) = Some f
     \<and> bgOriginalImage (handleBgImageUpload (Some f) s) = Some (dataURL f)
     \<and> bgRemovedImage (handleBgImageUpload (Some f) s) = None
     \<and> bgError (handleBgImageUpload (Some f) s) = None"
  using assms
  by (simp add: handleImageUpload_def onloadend_def handleImageUpload_part000_def
        onloadend_part000_def handleBgImageUpload_def MAX_FILE_SIZE_BYTES_def MAX_FILE_SIZE_MB_def)

theorem ingestion_resets_derived_state_witness:
  "startsWith (ftype pngFile) ''image/'' \<and> fsize pngFile \<le> 10 * 1024 * 1024
   \<and> enhancedImage loadedState \<noteq> None \<and> error loadedState \<noteq> None
   \<and> prompt loadedState \<noteq> DEFAULT_PROMPT \<and> isRestoreEnabled loadedState
   \<and> enhancedImage (handleImageUpload (Some pngFile) loadedState) = None
   \<and> error (handleImageUpload (Some pngFile) loadedState) = None
   \<and> prompt (handleImageUpload (Some pngFile) loadedState) = DEFAULT_PROMPT
   \<and> isRestoreEnabled (handleImageUpload (Some pngFile) loadedState) = False
   \<and> upscaleFactor (handleImageUpload (Some pngFile) loadedState) = ''none''
   \<and> originalImage (handleImageUpload (Some pngFile) loadedState) = Some ''data:image/png;base64,iVBORw0KGgo=''"
  using ingestion_resets_derived_state [of pngFile loadedState loadedState_part000]
  by (simp add: pngFile_def loadedState_def initialState_def DEFAULT_PROMPT_def)

text \<open>
  C5, as stated, fails: the type check is \<open>file.type.startsWith('image/')\<close>, so a file declared
  \<open>image/gif\<close>, which is none of \<open>image/png\<close>, \<open>image/jpeg\<close>, \<open>image/webp\<close>, is accepted.
\<close>

theorem accepted_types_counterexample:
  "ftype gifFile \<noteq> ''image/png'' \<and> ftype gifFile \<noteq> ''image/jpeg'' \<and> ftype gifFile \<noteq> ''image/webp''
   \<and> error (handleImageUpload (Some gifFile) initialState) = None
   \<and> imageFile (handleImageUpload (Some gifFile) initialState) = Some gifFile
   \<and> originalImage (handleImageUpload (Some gifFile) initialState) = Some (dataURL gifFile)"
  by (simp add: gifFile_def handleImageUpload_def onloadend_def initialState_def
        MAX_FILE_SIZE_BYTES_def MAX_FILE_SIZE_MB_def)

text \<open>
  C5, amended. A file is rejected with the invalid-type text exactly when its declared media type
  does not begin with \<open>image/\<close>; \<open>image/png\<close>, \<open>image/jpeg\<close> and \<open>image/webp\<close> begin with it.
  The rejection sets the error text of the pipeline and changes no other part of the state.
\<close>

theorem invalid_type_rejected:
  "(\<not> startsWith (ftype f) ''image/'' \<longrightarrow>
       handleImageUpload (Some f) s = s\<lparr>error := Some invalidTypeText\<rparr>
     \<and> handleImageUpload_part000 (Some f) s0 = s0\<lparr>error := Some invalidTypeText\<rparr>
     \<and> handleBgImageUpload (Some f) s = s\<lparr>bgError := Some invalidTypeText\<rparr>
     \<and> handleBgImageUpload (Some f) s0 = s0\<lparr>bgError := Some invalidTypeText\<rparr>)
   \<and> (startsWith (ftype f) ''image/'' \<longrightarrow>
       error (handleImageUpload (Some f) s) \<noteq> Some invalidTypeText
     \<and> error (handleImageUpload_part000 (Some f) s0) \<noteq> Some invalidTypeText
     \<and> bgError (handleBgImageUpload (Some f) s) \<noteq> Some invalidTypeText
     \<and> bgError (handleBgImageUpload (Some f) s0) \<noteq> Some invalidTypeText)
   \<and> startsWith ''image/png'' ''image/'' \<and> startsWith ''image/jpeg'' ''image/''
   \<and> startsWith ''image/webp'' ''image/''"
  using error_texts_differ [symmetric]
  by (simp add: handleImageUpload_def onloadend_def handleImageUpload_part000_def
        onloadend_part000_def handleBgImageUpload_def)

theorem invalid_type_rejected_witness:
  "\<not> startsWith (ftype pdfFile) ''image/''
   \<and> handleImageUpload (Some pdfFile) loadedState = loadedState\<lparr>error := Some invalidTypeText\<rparr>
   \<and> startsWith (ftype gifFile) ''image/''
   \<and> error (handleImageUpload (Some gifFile) loadedState) \<noteq> Some invalidTypeText"
  using invalid_type_rejected [of pdfFile loadedState loadedState_part000]
    invalid_type_rejected [of gifFile loadedState loadedState_part000]
  by (simp add: pdfFile_def gifFile_def)

text \<open>
  C6, as stated, fails: the type check runs before the size check, so an oversized file whose
  declared media type is not an image type is rejected with the invalid-type text, not with the
  size text.
\<close>

theorem oversized_counterexample:
  "fsize pdfFile > 10 * 1024 * 1024
   \<and> error (handleImageUpload (Some pdfFile) initialState) = Some invalidTypeText
   \<and> error (handleImageUpload (Some pdfFile) initialState) \<noteq> Some tooLargeText"
  using error_texts_differ
  by (simp add: pdfFile_def handleImageUpload_def initialState_def)

text \<open>
  C6, amended. Every file of more than 10 MiB (10 * 1024 * 1024 bytes) is rejected, and the
  rejection changes nothing but the error text of the pipeline: the size text when the declared media
  type begins with \<open>image/\<close>, the invalid-type text otherwise. A file of exactly 10 MiB is never
  rejected with the size text.
\<close>

theorem oversized_rejected:
  "(fsize f > 10 * 1024 * 1024 \<longrightarrow>
       handleImageUpload (Some f) s
         = s\<lparr>error := Some (if startsWith (ftype f) ''image/'' then tooLargeText else invalidTypeText)\<rparr>
     \<and> handleImageUpload_part000 (Some f) s0
         = s0\<lparr>error := Some (if startsWith (ftype f) ''image/'' then tooLargeText else invalidTypeText)\<rparr>
     \<and> handleBgImageUpload (Some f) s
         = s\<lparr>bgError := Some (if startsWith (ftype f) ''image/'' then tooLargeText else invalidTypeText)\<rparr>
     \<and> handleBgImageUpload (Some f) s0
         = s0\<lparr>bgError := Some (if startsWith (ftype f) ''image/'' then tooLargeText else invalidTypeText)\<rparr>)
   \<and> (fsize f = 10 * 1024 * 1024 \<longrightarrow>
       error (handleImageUpload (Some f) s) \<noteq> Some tooLargeText
     \<and> error (handleImageUpload_part000 (Some f) s0) \<noteq> Some tooLargeText
     \<and> bgError (handleBgImageUpload (Some f) s) \<noteq> Some tooLargeText
     \<and> bgError (handleBgImageUpload (Some f) s0) \<noteq> Some tooLargeText)"
  using error_texts_differ
  by (simp add: handleImageUpload_def onloadend_def handleImageUpload_part000_def
        onloadend_part000_def handleBgImageUpload_def MAX_FILE_SIZE_BYTES_def MAX_FILE_SIZE_MB_def)

theorem oversized_rejected_witness:
  "fsize (pngFile\<lparr>fsize := 10485761\<rparr>) > 10 * 1024 * 1024
   \<and> handleImageUpload (Some (pngFile\<lparr>fsize := 10485761\<rparr>)) loadedState
       = loadedState\<lparr>error := Some tooLargeText\<rparr>
   \<and> fsize (pngFile\<lparr>fsize := 10485760\<rparr>) = 10 * 1024 * 1024
   \<and> error (handleImageUpload (Some (pngFile\<lparr>fsize := 10485760\<rparr>)) loadedState) \<noteq> Some tooLargeText"
  using oversized_rejected [of "pngFile\<lparr>fsize := 10485761\<rparr>" loadedState loadedState_part000]
    oversized_rejected [of "pngFile\<lparr>fsize := 10485760\<rparr>" loadedState loadedState_part000]
  by (simp add: pngFile_def)


section \<open>The scan of the response parts\<close>

text \<open>The loops stop at the first part that carries inline data; what follows it is never read.\<close>

lemma enhancedFrom_first:
  "\<forall>q\<in>set pre. inlineData q = None \<Longrightarrow> inlineData p = Some b \<Longrightarrow>
   enhancedFrom (pre @ p # post) = Some (''data:'' @ tmpl (mimeType b) @ '';base64,'' @ tmpl (data b))"
  by (induction pre) simp_all

lemma enhancedFrom_none:
  "(enhancedFrom ps = None) = (\<forall>q\<in>set ps. inlineData q = None)"
  by (induction ps) (auto split: option.splits)

lemma removedFrom_first:
  "\<forall>q\<in>set pre. inlineData q = None \<Longrightarrow> inlineData p = Some b \<Longrightarrow>
   removedFrom (pre @ p # post) = Some (''data:'' @ ''image/png'' @ '';base64,'' @ tmpl (data b))"
  by (induction pre) simp_all

lemma removedFrom_none:
  "(removedFrom ps = None) = (\<forall>q\<in>set ps. inlineData q = None)"
  by (induction ps) (auto split: option.splits)

lemma removedFrom_part000_first:
  "\<forall>q\<in>set pre. inlineData q = None \<Longrightarrow> inlineData p = Some b \<Longrightarrow>
   removedFrom_part000 (pre @ p # post) = Some (''data:'' @ tmpl (mimeType b) @ '';base64,'' @ tmpl (data b))"
  by (induction pre) simp_all

lemma removedFrom_part000_none:
  "(removedFrom_part000 ps = None) = (\<forall>q\<in>set ps. inlineData q = None)"
  by (induction ps) (auto split: option.splits)

lemma first_inline_split:
  "\<exists>q\<in>set ps. inlineData q \<noteq> None \<Longrightarrow>
   \<exists>pre p b post. ps = pre @ p # post \<and> (\<forall>q\<in>set pre. inlineData q = None) \<and> inlineData p = Some b"
proof (induction ps)
  case Nil
  then show ?case by simp
next
  case (Cons x xs)
  show ?case
  proof (cases "inlineData x")
    case (Some b)
    then have "x # xs = [] @ x # xs \<and> (\<forall>q\<in>set []. inlineData q = None) \<and> inlineData x = Some b"
      by simp
    then show ?thesis by blast
  next
    case None
    with Cons.prems have "\<exists>q\<in>set xs. inlineData q \<noteq> None" by simp
    then obtain pre p b post where
      *: "xs = pre @ p # post" "\<forall>q\<in>set pre. inlineData q = None" "inlineData p = Some b"
      using Cons.IH by blast
    with None have "x # xs = (x # pre) @ p # post \<and> (\<forall>q\<in>set (x # pre). inlineData q = None)
        \<and> inlineData p = Some b"
      by simp
    then show ?thesis by blast
  qed
qed


section \<open>Properties of a request that delivers an image\<close>

lemma enhance_success:
  assumes "imageFile s = Some f" and "prompt s \<noteq> []" and "clientError e = None"
    and "generateContent e (generateContentRequest f (finalPrompt s)) = Inr r"
    and "getParts r = Some (pre @ p # post)"
    and "\<forall>q\<in>set pre. inlineData q = None" and "inlineData p = Some b"
  shows "handleEnhanceClick e s =
    (s\<lparr>isLoading := False, error := None,
       enhancedImage := Some (''data:'' @ tmpl (mimeType b) @ '';base64,'' @ tmpl (data b))\<rparr>,
     [generateContentRequest f (finalPrompt s)])"
  using assms enhancedFrom_first [of pre p b post]
  by (simp add: handleEnhanceClick_def callModel_def)

lemma enhance_success_part000:
  assumes "imageFile s = Some f" and "prompt s \<noteq> []" and "clientError e = None"
    and "generateContent e (generateContentRequest f (finalPrompt_part000 s)) = Inr r"
    and "getParts r = Some (pre @ p # post)"
    and "\<forall>q\<in>set pre. inlineData q = None" and "inlineData p = Some b"
  shows "handleEnhanceClick_part000 e s =
    (s\<lparr>isLoading := False, error := None,
       enhancedImage := Some (''data:'' @ tmpl (mimeType b) @ '';base64,'' @ tmpl (data b))\<rparr>,
     [generateContentRequest f (finalPrompt_part000 s)])"
  using assms enhancedFrom_first [of pre p b post]
  by (simp add: handleEnhanceClick_part000_def callModel_def)

text \<open>
  C2. A list of parts with at least one part carrying inline data splits into the parts before
  the first such part, that part, and the parts after it. When the model answers the enhance
  request with such a list, \<open>handleEnhanceClick\<close> ends with the result image built from the data
  and the media type of that first part, with no error and not loading. The parts after it do not
  occur in the result: any response with the same parts up to the first inline part gives the same
  state. Both source files agree.
\<close>

theorem first_inline_image_becomes_result:
  "((\<exists>q\<in>set ps. inlineData q \<noteq> None) \<longrightarrow>
      (\<exists>pre p b post. ps = pre @ p # post \<and> (\<forall>q\<in>set pre. inlineData q = None)
          \<and> inlineData p = Some b))
   \<and> (getParts r = Some (pre @ p # post) \<and> (\<forall>q\<in>set pre. inlineData q = None)
        \<and> inlineData p = Some b \<and> clientError e = None \<longrightarrow>
        (imageFile s = Some f \<and> prompt s \<noteq> []
          \<and> generateContent e (generateContentRequest f (finalPrompt s)) = Inr r \<longrightarrow>
           fst (handleEnhanceClick e s) =
             s\<lparr>isLoading := False, error := None,
               enhancedImage := Some (''data:'' @ tmpl (mimeType b) @ '';base64,'' @ tmpl (data b))\<rparr>)
      \<and> (imageFile s0 = Some f0 \<and> prompt s0 \<noteq> []
          \<and> generateContent e (generateContentRequest f0 (finalPrompt_part000 s0)) = Inr r \<longrightarrow>
           fst (handleEnhanceClick_part000 e s0) =
             s0\<lparr>isLoading := False, error := None,
               enhancedImage := Some (''data:'' @ tmpl (mimeType b) @ '';base64,'' @ tmpl (data b))\<rparr>))"
  using first_inline_split [of ps] enhance_success [of s f e r pre p post b]
    enhance_success_part000 [of s0 f0 e r pre p post b]
  by simp

theorem first_inline_image_becomes_result_witness:
  "inlineData (imagePart ''image/png'' ''REVG'') \<noteq> None
   \<and> getParts (responseOf [textPart ''Here you are'', imagePart ''image/jpeg'' ''QUJD'', imagePart ''image/png'' ''REVG''] None)
       = Some ([textPart ''Here you are''] @ imagePart ''image/jpeg'' ''QUJD'' # [imagePart ''image/png'' ''REVG''])
   \<and> inlineData (textPart ''Here you are'') = None
   \<and> inlineData (imagePart ''image/jpeg'' ''QUJD'') = Some \<lparr> data = Some ''QUJD'', mimeType = Some ''image/jpeg'' \<rparr>
   \<and> imageFile loadedState = Some pngFile \<and> prompt loadedState \<noteq> []
   \<and> imageFile loadedState_part000 = Some pngFile \<and> prompt loadedState_part000 \<noteq> []
   \<and> fst (handleEnhanceClick
        (respondWith (responseOf [textPart ''Here you are'', imagePart ''image/jpeg'' ''QUJD'', imagePart ''image/png'' ''REVG''] None))
        loadedState)
       = loadedState\<lparr>isLoading := False, error := None, enhancedImage := Some ''data:image/jpeg;base64,QUJD''\<rparr>
   \<and> fst (handleEnhanceClick_part000
        (respondWith (responseOf [textPart ''Here you are'', imagePart ''image/jpeg'' ''QUJD'', imagePart ''image/png'' ''REVG''] None))
        loadedState_part000)
       = loadedState_part000\<lparr>isLoading := False, error := None, enhancedImage := Some ''data:image/jpeg;base64,QUJD''\<rparr>"
  using first_inline_image_becomes_result [of
      "[textPart ''Here you are'', imagePart ''image/jpeg'' ''QUJD'', imagePart ''image/png'' ''REVG'']"
      "responseOf [textPart ''Here you are'', imagePart ''image/jpeg'' ''QUJD'', imagePart ''image/png'' ''REVG''] None"
      "[textPart ''Here you are'']" "imagePart ''image/jpeg'' ''QUJD''" "[imagePart ''image/png'' ''REVG'']"
      "\<lparr> data = Some ''QUJD'', mimeType = Some ''image/jpeg'' \<rparr>"
      "respondWith (responseOf [textPart ''Here you are'', imagePart ''image/jpeg'' ''QUJD'', imagePart ''image/png'' ''REVG''] None)"
      loadedState pngFile loadedState_part000 pngFile]
  by (simp add: responseOf_def getParts_def textPart_def imagePart_def respondWith_def tmpl_def
        loadedState_def loadedState_part000_def initialState_def initialState_part000_def)

lemma remove_success:
  assumes "bgImageFile s = Some f" and "clientError e = None"
    and "generateContent e (generateContentRequest f bgRemovePrompt) = Inr r"
    and "getParts r = Some (pre @ p # post)"
    and "\<forall>q\<in>set pre. inlineData q = None" and "inlineData p = Some b"
  shows "fst (handleRemoveBackgroundClick e s) =
    s\<lparr>bgIsLoading := False, bgError := None,
      bgRemovedImage := Some (''data:image/png;base64,'' @ tmpl (data b))\<rparr>"
  using assms removedFrom_first [of pre p b post]
  by (simp add: handleRemoveBackgroundClick_def callModel_def)

lemma remove_success_part000:
  assumes "bgImageFile s = Some f" and "clientError e = None"
    and "generateContent e (generateContentRequest f bgRemovePrompt_part000) = Inr r"
    and "getParts r = Some (pre @ p # post)"
    and "\<forall>q\<in>set pre. inlineData q = None" and "inlineData p = Some b"
  shows "fst (handleRemoveBackgroundClick_part000 e s) =
    s\<lparr>bgIsLoading := False, bgError := None,
      bgRemovedImage := Some (''data:'' @ tmpl (mimeType b) @ '';base64,'' @ tmpl (data b))\<rparr>"
  using assms removedFrom_part000_first [of pre p b post]
  by (simp add: handleRemoveBackgroundClick_part000_def callModel_def)

text \<open>
  C4. In \<open>src/index.tsx\<close> the result of a background removal is recorded as \<open>image/png\<close>
  whatever media type the inline part reports (lemma \<open>remove_success\<close>). The second source file
  records the reported type instead (lemma \<open>remove_success_part000\<close>): on a response whose inline
  part reports \<open>image/jpeg\<close> its result is a \<open>data:image/jpeg\<close> URL, where \<open>src/index.tsx\<close>
  records \<open>data:image/png\<close>.
\<close>

theorem removal_media_type_part000:
  "fst (handleRemoveBackgroundClick_part000
          (respondWith (responseOf [imagePart ''image/jpeg'' ''QUJD''] None)) loadedState_part000)
     = loadedState_part000\<lparr>bgIsLoading := False, bgError := None,
         bgRemovedImage := Some ''data:image/jpeg;base64,QUJD''\<rparr>
   \<and> fst (handleRemoveBackgroundClick
          (respondWith (responseOf [imagePart ''image/jpeg'' ''QUJD''] None)) loadedState)
     = loadedState\<lparr>bgIsLoading := False, bgError := None,
         bgRemovedImage := Some ''data:image/png;base64,QUJD''\<rparr>"
  by (simp add: handleRemoveBackgroundClick_part000_def handleRemoveBackgroundClick_def callModel_def
        respondWith_def responseOf_def getParts_def imagePart_def tmpl_def
        loadedState_part000_def loadedState_def initialState_part000_def initialState_def)


section \<open>Properties of a request that delivers no image\<close>

lemma errorMessage_newError: "m \<noteq> [] \<Longrightarrow> errorMessage (newError m) = m"
  by (simp add: errorMessage_def newError_def)

lemma noImageMessage_nonempty: "noImageMessage r \<noteq> []"
  by (simp add: noImageMessage_def)

lemma no_inline_scan:
  "(\<forall>ps. getParts r = Some ps \<longrightarrow> (\<forall>q\<in>set ps. inlineData q = None)) \<Longrightarrow>
   Option.bind (getParts r) enhancedFrom = None"
  by (cases "getParts r") (simp_all add: enhancedFrom_none)

lemma enhance_no_image:
  assumes "imageFile s = Some f" and "prompt s \<noteq> []" and "clientError e = None"
    and "generateContent e (generateContentRequest f (finalPrompt s)) = Inr r"
    and "\<forall>ps. getParts r = Some ps \<longrightarrow> (\<forall>q\<in>set ps. inlineData q = None)"
  shows "fst (handleEnhanceClick e s) =
    (if isCredentialError (noImageMessage r)
     then s\<lparr>isLoading := False, enhancedImage := None, error := Some credentialText,
            apiKeyReady := False\<rparr>
     else s\<lparr>isLoading := False, enhancedImage := None,
            error := Some (''An error occurred during enhancement: '' @ noImageMessage r)\<rparr>)"
  using assms(1-4) no_inline_scan [OF assms(5)] errorMessage_newError [OF noImageMessage_nonempty, of r]
  by (simp add: handleEnhanceClick_def callModel_def catchEnhance_def)

lemma enhance_no_image_part000:
  assumes "imageFile s = Some f" and "prompt s \<noteq> []" and "clientError e = None"
    and "generateContent e (generateContentRequest f (finalPrompt_part000 s)) = Inr r"
    and "\<forall>ps. getParts r = Some ps \<longrightarrow> (\<forall>q\<in>set ps. inlineData q = None)"
  shows "fst (handleEnhanceClick_part000 e s) =
     s\<lparr>isLoading := False, enhancedImage := None,
       error := Some (''An error occurred during enhancement: '' @ noImageMessage r)\<rparr>"
  using assms(1-4) no_inline_scan [OF assms(5)]
  by (simp add: handleEnhanceClick_part000_def callModel_def catchEnhance_part000_def newError_def tmpl_def)

text \<open>A credential phrase occurs in the failure message exactly when it occurs in the text the
  message quotes: the phrases contain no double quote and do not occur in the fixed words.\<close>

lemma startsWith_before_foreign:
  "q \<notin> set p \<Longrightarrow> startsWith (xs @ q # ys) p = startsWith xs p"
proof (induction xs p rule: startsWith.induct)
  case (1 s)
  then show ?case by simp
next
  case (2 x ps)
  then show ?case by simp
next
  case (3 c cs x ps)
  then show ?case by simp
qed

lemma includes_str_around_foreign:
  "q \<notin> set p \<Longrightarrow> p \<noteq> [] \<Longrightarrow>
   includes_str (xs @ q # ys) p = (includes_str xs p \<or> includes_str ys p)"
proof (induction xs)
  case Nil
  then show ?case by (cases p) auto
next
  case (Cons c cs)
  from Cons.prems(1) have "startsWith ((c # cs) @ q # ys) p = startsWith (c # cs) p"
    by (rule startsWith_before_foreign)
  with Cons show ?case by auto
qed

lemma includes_str_quoted:
  assumes "q \<notin> set p" and "p \<noteq> []" and "\<not> includes_str a p"
  shows "includes_str (a @ [q] @ t @ [q]) p = includes_str t p"
proof -
  have "includes_str (a @ q # (t @ q # [])) p = (includes_str a p \<or> includes_str (t @ q # []) p)"
    using assms(1,2) by (rule includes_str_around_foreign)
  moreover have "includes_str (t @ q # []) p = (includes_str t p \<or> includes_str [] p)"
    using assms(1,2) by (rule includes_str_around_foreign)
  moreover have "\<not> includes_str [] p"
    using assms(2) by (cases p) simp_all
  ultimately show ?thesis
    using assms(3) by simp
qed

lemma credential_in_reason_iff:
  "isCredentialError (noImageMessage r) = isCredentialError (textResponse r)"
proof -
  have 1: "includes_str (''The AI did not return an image. Response: '' @ [CHR 0x22] @ textResponse r @ [CHR 0x22])
        ''API Key must be set'' = includes_str (textResponse r) ''API Key must be set''"
    by (rule includes_str_quoted) simp_all
  have 2: "includes_str (''The AI did not return an image. Response: '' @ [CHR 0x22] @ textResponse r @ [CHR 0x22])
        ''Requested entity was not found'' = includes_str (textResponse r) ''Requested entity was not found''"
    by (rule includes_str_quoted) simp_all
  show ?thesis
    unfolding isCredentialError_def noImageMessage_def by (simp only: 1 2)
qed

lemma trim_no_break_space: "trim [CHR 0xA0, CHR 0x20, CHR 0x0A] = []"
  by (simp add: trim_def isWhiteSpace_def)

text \<open>A missing text and a text of white space only both give the placeholder.\<close>

lemma textResponse_blank:
  "textResponse (responseOf ps None) = ''No text response.''
   \<and> textResponse (responseOf ps (Some [CHR 0xA0, CHR 0x20, CHR 0x0A])) = ''No text response.''"
  by (simp add: textResponse_def responseOf_def trim_def isWhiteSpace_def)

text \<open>Where the quoted text contains no credential phrase, \<open>src/index.tsx\<close> displays the failure
  message built from it, as the second source file does for every response.\<close>

lemma no_image_reason_displayed:
  assumes "imageFile s = Some f" and "prompt s \<noteq> []" and "clientError e = None"
    and "generateContent e (generateContentRequest f (finalPrompt s)) = Inr r"
    and "\<forall>ps. getParts r = Some ps \<longrightarrow> (\<forall>q\<in>set ps. inlineData q = None)"
    and "\<not> isCredentialError (textResponse r)"
  shows "fst (handleEnhanceClick e s) =
     s\<lparr>isLoading := False, enhancedImage := None,
       error := Some (''An error occurred during enhancement: ''
                      @ ''The AI did not return an image. Response: '' @ [CHR 0x22]
                      @ textResponse r @ [CHR 0x22])\<rparr>"
  using enhance_no_image [OF assms(1-5)] assms(6) credential_in_reason_iff [of r]
  by (simp add: noImageMessage_def)

text \<open>
  C3. When the model answers the enhance request with no part carrying inline data, the handler
  throws an error whose message quotes the trimmed response text (or \<open>No text response.\<close>), and
  the run ends with no result image, not loading, and an error. The second source file displays
  that message for every such response. In \<open>src/index.tsx\<close> the \<open>catch\<close> block that receives
  the error also searches its message for the two credential phrases: on a response without image
  whose text is \<open>Requested entity was not found\<close> it displays the credential text and clears
  \<open>apiKeyReady\<close>, where the second source file, on the same response, displays the message
  built from the text. \<open>handleRemoveBackgroundClick\<close> of \<open>src/index.tsx\<close> does the same.
\<close>

theorem no_image_reason_misclassified:
  "getParts (responseOf [textPart ''Requested entity was not found''] (Some ''Requested entity was not found''))
     = Some [textPart ''Requested entity was not found'']
   \<and> inlineData (textPart ''Requested entity was not found'') = None
   \<and> apiKeyReady loadedState = True
   \<and> fst (handleEnhanceClick
        (respondWith (responseOf [textPart ''Requested entity was not found''] (Some ''Requested entity was not found'')))
        loadedState)
       = loadedState\<lparr>isLoading := False, enhancedImage := None, error := Some credentialText,
           apiKeyReady := False\<rparr>
   \<and> fst (handleRemoveBackgroundClick
        (respondWith (responseOf [textPart ''Requested entity was not found''] (Some ''Requested entity was not found'')))
        loadedState)
       = loadedState\<lparr>bgIsLoading := False, bgRemovedImage := None, bgError := Some credentialText,
           apiKeyReady := False\<rparr>
   \<and> fst (handleEnhanceClick_part000
        (respondWith (responseOf [textPart ''Requested entity was not found''] (Some ''Requested entity was not found'')))
        loadedState_part000)
       = loadedState_part000\<lparr>isLoading := False, enhancedImage := None,
           error := Some (''An error occurred during enhancement: The AI did not return an image. Response: ''
                          @ [CHR 0x22] @ ''Requested entity was not found'' @ [CHR 0x22])\<rparr>
   \<and> credentialText \<noteq> ''An error occurred during enhancement: The AI did not return an image. Response: ''
                          @ [CHR 0x22] @ ''Requested entity was not found'' @ [CHR 0x22]"
  by (simp add: responseOf_def getParts_def textPart_def respondWith_def handleEnhanceClick_def
        handleRemoveBackgroundClick_def handleEnhanceClick_part000_def
        callModel_def catchEnhance_def catchRemove_def catchEnhance_part000_def tmpl_def
        loadedState_def loadedState_part000_def initialState_def initialState_part000_def pngFile_def
        newError_def errorMessage_def noImageMessage_def textResponse_def trim_def isWhiteSpace_def
        isCredentialError_def credentialText_def)

section \<open>Properties of a request that throws\<close>

lemma enhance_thrown:
  assumes "imageFile s = Some f" and "prompt s \<noteq> []"
    and "clientError e = Some t
         \<or> clientError e = None \<and> generateContent e (generateContentRequest f (finalPrompt s)) = Inl t"
  shows "fst (handleEnhanceClick e s) =
    (if isCredentialError (errorMessage t)
     then s\<lparr>isLoading := False, enhancedImage := None, error := Some credentialText,
            apiKeyReady := False\<rparr>
     else s\<lparr>isLoading := False, enhancedImage := None,
            error := Some (''An error occurred during enhancement: '' @ errorMessage t)\<rparr>)"
  using assms by (auto simp: handleEnhanceClick_def callModel_def catchEnhance_def)

lemma remove_thrown:
  assumes "bgImageFile s = Some f"
    and "clientError e = Some t
         \<or> clientError e = None \<and> generateContent e (generateContentRequest f bgRemovePrompt) = Inl t"
  shows "fst (handleRemoveBackgroundClick e s) =
    (if isCredentialError (errorMessage t)
     then s\<lparr>bgIsLoading := False, bgRemovedImage := None, bgError := Some credentialText,
            apiKeyReady := False\<rparr>
     else s\<lparr>bgIsLoading := False, bgRemovedImage := None,
            bgError := Some (''An error occurred: '' @ errorMessage t)\<rparr>)"
  using assms by (auto simp: handleRemoveBackgroundClick_def callModel_def catchRemove_def)

lemma enhance_thrown_part000:
  assumes "imageFile s = Some f" and "prompt s \<noteq> []"
    and "clientError e = Some t
         \<or> clientError e = None \<and> generateContent e (generateContentRequest f (finalPrompt_part000 s)) = Inl t"
  shows "fst (handleEnhanceClick_part000 e s) =
     s\<lparr>isLoading := False, enhancedImage := None,
       error := Some (''An error occurred during enhancement: '' @ tmpl (message t))\<rparr>"
  using assms by (auto simp: handleEnhanceClick_part000_def callModel_def catchEnhance_part000_def)

lemma remove_thrown_part000:
  assumes "bgImageFile s = Some f"
    and "clientError e = Some t
         \<or> clientError e = None \<and> generateContent e (generateContentRequest f bgRemovePrompt_part000) = Inl t"
  shows "fst (handleRemoveBackgroundClick_part000 e s) =
     s\<lparr>bgIsLoading := False, bgRemovedImage := None,
       bgError := Some (''An error occurred: '' @ tmpl (message t))\<rparr>"
  using assms by (auto simp: handleRemoveBackgroundClick_part000_def callModel_def catchRemove_part000_def)

text \<open>
  C9, as stated, fails in the second source file, which has no credential selection: an error
  whose message contains a credential phrase is displayed like any other error.
\<close>

theorem credential_detection_counterexample:
  "includes_str (tmpl (message (newError ''API Key must be set''))) ''API Key must be set''
   \<and> fst (handleEnhanceClick_part000 (failWith (newError ''API Key must be set'')) loadedState_part000)
       = loadedState_part000\<lparr>isLoading := False, enhancedImage := None,
           error := Some ''An error occurred during enhancement: API Key must be set''\<rparr>
   \<and> error (fst (handleEnhanceClick_part000 (failWith (newError ''API Key must be set'')) loadedState_part000))
       \<noteq> Some credentialText"
  by (simp add: handleEnhanceClick_part000_def callModel_def failWith_def catchEnhance_part000_def
        newError_def tmpl_def loadedState_part000_def initialState_part000_def credentialText_def)

text \<open>
  C9, amended. In \<open>src/index.tsx\<close>, when the request throws, the handlers inspect
  \<open>e.message || String(e)\<close>: if it contains \<open>API Key must be set\<close> or
  \<open>Requested entity was not found\<close> the error becomes the credential text and \<open>apiKeyReady\<close>
  is cleared, so that the key selection is shown again; otherwise the error is the fixed prefix
  followed by that message, which is the raw message of the error whenever it has a non-empty one.
  In the second source file every thrown error is displayed as the fixed prefix followed by its
  message.
\<close>

theorem thrown_errors_classified:
  "(message t = Some m \<and> m \<noteq> [] \<longrightarrow> errorMessage t = m)
   \<and> (imageFile s = Some f \<and> prompt s \<noteq> []
        \<and> (clientError e = Some t
            \<or> clientError e = None \<and> generateContent e (generateContentRequest f (finalPrompt s)) = Inl t) \<longrightarrow>
        fst (handleEnhanceClick e s) =
          (if includes_str (errorMessage t) ''API Key must be set''
              \<or> includes_str (errorMessage t) ''Requested entity was not found''
           then s\<lparr>isLoading := False, enhancedImage := None, error := Some credentialText,
                  apiKeyReady := False\<rparr>
           else s\<lparr>isLoading := False, enhancedImage := None,
                  error := Some (''An error occurred during enhancement: '' @ errorMessage t)\<rparr>))
   \<and> (bgImageFile s = Some g
        \<and> (clientError e = Some t
            \<or> clientError e = None \<and> generateContent e (generateContentRequest g bgRemovePrompt) = Inl t) \<longrightarrow>
        fst (handleRemoveBackgroundClick e s) =
          (if includes_str (errorMessage t) ''API Key must be set''
              \<or> includes_str (errorMessage t) ''Requested entity was not found''
           then s\<lparr>bgIsLoading := False, bgRemovedImage := None, bgError := Some credentialText,
                  apiKeyReady := False\<rparr>
           else s\<lparr>bgIsLoading := False, bgRemovedImage := None,
                  bgError := Some (''An error occurred: '' @ errorMessage t)\<rparr>))
   \<and> (imageFile s0 = Some f0 \<and> prompt s0 \<noteq> []
        \<and> (clientError e = Some t
            \<or> clientError e = None
               \<and> generateContent e (generateContentRequest f0 (finalPrompt_part000 s0)) = Inl t) \<longrightarrow>
        fst (handleEnhanceClick_part000 e s0) =
          s0\<lparr>isLoading := False, enhancedImage := None,
            error := Some (''An error occurred during enhancement: '' @ tmpl (message t))\<rparr>)
   \<and> (bgImageFile s0 = Some g0
        \<and> (clientError e = Some t
            \<or> clientError e = None
               \<and> generateContent e (generateContentRequest g0 bgRemovePrompt_part000) = Inl t) \<longrightarrow>
        fst (handleRemoveBackgroundClick_part000 e s0) =
          s0\<lparr>bgIsLoading := False, bgRemovedImage := None,
            bgError := Some (''An error occurred: '' @ tmpl (message t))\<rparr>)"
  using enhance_thrown [of s f e t] remove_thrown [of s g e t]
    enhance_thrown_part000 [of s0 f0 e t] remove_thrown_part000 [of s0 g0 e t]
  by (simp add: errorMessage_def isCredentialError_def)

theorem thrown_errors_classified_witness:
  "message (newError ''got status: 404. Requested entity was not found.'')
     = Some ''got status: 404. Requested entity was not found.''
   \<and> imageFile loadedState = Some pngFile \<and> prompt loadedState \<noteq> []
   \<and> clientError (failWith (newError ''got status: 404. Requested entity was not found.'')) = None
   \<and> generateContent (failWith (newError ''got status: 404. Requested entity was not found.''))
        (generateContentRequest pngFile (finalPrompt loadedState))
       = Inl (newError ''got status: 404. Requested entity was not found.'')
   \<and> fst (handleEnhanceClick (failWith (newError ''got status: 404. Requested entity was not found.'')) loadedState)
       = loadedState\<lparr>isLoading := False, enhancedImage := None, error := Some credentialText,
           apiKeyReady := False\<rparr>
   \<and> fst (handleEnhanceClick (failWith (newError ''fetch failed'')) loadedState)
       = loadedState\<lparr>isLoading := False, enhancedImage := None,
           error := Some ''An error occurred during enhancement: fetch failed''\<rparr>
   \<and> fst (handleRemoveBackgroundClick (failWith (newError ''fetch failed'')) loadedState)
       = loadedState\<lparr>bgIsLoading := False, bgRemovedImage := None,
           bgError := Some ''An error occurred: fetch failed''\<rparr>
   \<and> fst (handleEnhanceClick_part000 (failWith (newError ''fetch failed'')) loadedState_part000)
       = loadedState_part000\<lparr>isLoading := False, enhancedImage := None,
           error := Some ''An error occurred during enhancement: fetch failed''\<rparr>
   \<and> fst (handleRemoveBackgroundClick_part000 (failWith (newError ''fetch failed'')) loadedState_part000)
       = loadedState_part000\<lparr>bgIsLoading := False, bgRemovedImage := None,
           bgError := Some ''An error occurred: fetch failed''\<rparr>"
  using thrown_errors_classified [of "newError ''got status: 404. Requested entity was not found.''"
      "''got status: 404. Requested entity was not found.''" loadedState pngFile
      "failWith (newError ''got status: 404. Requested entity was not found.'')" pngFile
      loadedState_part000 pngFile pngFile]
    thrown_errors_classified [of "newError ''fetch failed''" "''fetch failed''" loadedState pngFile
      "failWith (newError ''fetch failed'')" pngFile loadedState_part000 pngFile pngFile]
  by (simp add: failWith_def newError_def tmpl_def loadedState_def loadedState_part000_def
        initialState_def initialState_part000_def)

end
